theory Spec2Isabelle
  imports Complex_Main "HOL-Library.AList"
begin

section \<open>Python values, dictionaries and exceptions\<close>

text \<open>
  The agent works on \<^verbatim>\<open>Dict[str, Any]\<close> throughout: intents decoded from the
  language model's JSON, and the actions returned to the caller. A value is therefore one
  of the shapes \<^verbatim>\<open>json.loads\<close> produces. A dictionary is an association list
  with distinct keys in insertion order; \<^verbatim>\<open>d[k] = v\<close> is \<open>AList.update\<close>, which
  overwrites in place or appends, as Python does.

  Strings are lists of 8-bit characters. Case conversion and the character classes of the
  regular expressions are those of Python on ASCII; characters above 127 are taken as
  uncased symbols that are neither white space nor word characters.
\<close>

datatype pyval =
    PNone
  | PBool bool
  | PInt int
  | PFloat real
  | PStr string
  | PList "pyval list"
  | PDict "(string \<times> pyval) list"

type_synonym pydict = "(string \<times> pyval) list"

datatype exn_kind =
  AttributeError | TypeError | KeyError | ValueError | JSONDecodeError | ProviderError

datatype exn = Exn exn_kind string

text \<open>\<^verbatim>\<open>bool(v)\<close>: the truth value Python gives a value in \<^verbatim>\<open>if v\<close> and \<^verbatim>\<open>not v\<close>.\<close>

fun truthy :: "pyval \<Rightarrow> bool" where
  "truthy PNone = False"
| "truthy (PBool b) = b"
| "truthy (PInt i) = (i \<noteq> 0)"
| "truthy (PFloat x) = (x \<noteq> 0)"
| "truthy (PStr s) = (s \<noteq> [])"
| "truthy (PList xs) = (xs \<noteq> [])"
| "truthy (PDict d) = (d \<noteq> [])"

text \<open>\<^verbatim>\<open>d.get(k)\<close> and \<^verbatim>\<open>d.get(k, default)\<close> on a dictionary.\<close>

definition dict_get :: "pydict \<Rightarrow> string \<Rightarrow> pyval" where
  "dict_get d k = (case map_of d k of None \<Rightarrow> PNone | Some v \<Rightarrow> v)"

definition dict_get_default :: "pydict \<Rightarrow> string \<Rightarrow> pyval \<Rightarrow> pyval" where
  "dict_get_default d k dflt = (case map_of d k of None \<Rightarrow> dflt | Some v \<Rightarrow> v)"

definition dict_has :: "pydict \<Rightarrow> string \<Rightarrow> bool" where
  "dict_has d k = (map_of d k \<noteq> None)"

definition dict_set :: "string \<Rightarrow> pyval \<Rightarrow> pydict \<Rightarrow> pydict" where
  "dict_set k v d = AList.update k v d"

text \<open>\<^verbatim>\<open>v in xs\<close> for a list \<open>xs\<close> of string literals: only a string equals a string.\<close>

fun in_strs :: "pyval \<Rightarrow> string list \<Rightarrow> bool" where
  "in_strs (PStr s) xs = (s \<in> set xs)"
| "in_strs _ xs = False"

text \<open>\<^verbatim>\<open>sep.join(xs)\<close>\<close>

fun join :: "string \<Rightarrow> string list \<Rightarrow> string" where
  "join sep [] = []"
| "join sep [x] = x"
| "join sep (x # y # ys) = x @ sep @ join sep (y # ys)"

section \<open>Intent Validator (\<^verbatim>\<open>IntentParser._validate_action\<close>)\<close>

definition valid_actions :: "string list" where
  "valid_actions =
    [''generate_dashboard'', ''add_chart'', ''modify_chart'', ''remove_chart'',
     ''explain_chart'', ''answer_question'', ''filter_data'', ''transform_data'',
     ''update_kpi'', ''rename_component'', ''unknown'']"

definition fill_default :: "string \<Rightarrow> pyval \<Rightarrow> pydict \<Rightarrow> pydict" where
  "fill_default k v action = (if \<not> dict_has action k then dict_set k v action else action)"

definition validate_action :: "pydict \<Rightarrow> pydict" where
  "validate_action action0 =
    (let action1 = fill_default ''action_type'' (PStr ''unknown'') action0;
         action2 = fill_default ''target_component'' PNone action1;
         action3 = fill_default ''parameters'' (PDict []) action2;
         action4 = fill_default ''explanation'' (PStr ''Processing your request.'') action3
     in if \<not> in_strs (dict_get action4 ''action_type'') valid_actions
        then dict_set ''explanation''
               (PStr (''Unknown action type. Available: '' @ join '', '' valid_actions))
               (dict_set ''action_type'' (PStr ''unknown'') action4)
        else action4)"

section \<open>Strings\<close>

definition lower_char :: "char \<Rightarrow> char" where
  "lower_char c =
    (let n = (of_char c :: nat) in if 65 \<le> n \<and> n \<le> 90 then char_of (n + 32) else c)"

definition upper_char :: "char \<Rightarrow> char" where
  "upper_char c =
    (let n = (of_char c :: nat) in if 97 \<le> n \<and> n \<le> 122 then char_of (n - 32) else c)"

text \<open>\<^verbatim>\<open>s.lower()\<close>\<close>

definition lower :: "string \<Rightarrow> string" where
  "lower s = map lower_char s"

text \<open>\<^verbatim>\<open>str.isspace\<close>, which is also the class \<^verbatim>\<open>\s\<close> of \<^verbatim>\<open>re\<close>.\<close>

definition isspace :: "char \<Rightarrow> bool" where
  "isspace c = (let n = (of_char c :: nat) in (9 \<le> n \<and> n \<le> 13) \<or> (28 \<le> n \<and> n \<le> 32))"

definition is_alpha :: "char \<Rightarrow> bool" where
  "is_alpha c =
    (let n = (of_char c :: nat) in (65 \<le> n \<and> n \<le> 90) \<or> (97 \<le> n \<and> n \<le> 122))"

definition is_digit :: "char \<Rightarrow> bool" where
  "is_digit c = (let n = (of_char c :: nat) in 48 \<le> n \<and> n \<le> 57)"

text \<open>The class \<^verbatim>\<open>\w\<close>.\<close>

definition is_word :: "char \<Rightarrow> bool" where
  "is_word c = (is_alpha c \<or> is_digit c \<or> c = CHR ''_'')"

text \<open>\<^verbatim>\<open>s.startswith(p)\<close>\<close>

fun starts_with :: "string \<Rightarrow> string \<Rightarrow> bool" where
  "starts_with [] s = True"
| "starts_with (p # ps) [] = False"
| "starts_with (p # ps) (c # cs) = (p = c \<and> starts_with ps cs)"

text \<open>\<^verbatim>\<open>sub in s\<close> on strings: \<open>contains s sub\<close>.\<close>

fun contains :: "string \<Rightarrow> string \<Rightarrow> bool" where
  "contains [] sub = (sub = [])"
| "contains (c # cs) sub = (starts_with sub (c # cs) \<or> contains cs sub)"

text \<open>\<^verbatim>\<open>any(word in s for word in words)\<close>\<close>

definition contains_any :: "string \<Rightarrow> string list \<Rightarrow> bool" where
  "contains_any s words = list_ex (contains s) words"


text \<open>\<^verbatim>\<open>s.replace(a, b)\<close> for single characters \<open>a\<close>, \<open>b\<close>.\<close>

definition replace_char :: "char \<Rightarrow> char \<Rightarrow> string \<Rightarrow> string" where
  "replace_char a b s = map (\<lambda>c. if c = a then b else c) s"

text \<open>
  \<^verbatim>\<open>s.title()\<close>: a letter that follows a letter is lower-cased, any other letter is
  upper-cased. The flag says whether the previous character was a letter.
\<close>

fun title_from :: "bool \<Rightarrow> string \<Rightarrow> string" where
  "title_from prev [] = []"
| "title_from prev (c # cs) =
     (if is_alpha c then (if prev then lower_char c else upper_char c) # title_from True cs
      else c # title_from False cs)"

definition title :: "string \<Rightarrow> string" where
  "title s = title_from False s"




section \<open>Regular expressions of the Intent Extractor\<close>









section \<open>Intent Extractor (\<^verbatim>\<open>IntentParser._extract_json_strict\<close>)\<close>

text \<open>
  \<^verbatim>\<open>json.loads\<close> is a parameter \<open>loads\<close>: it returns the decoded value or raises.
  The extractor catches \<^verbatim>\<open>json.JSONDecodeError\<close> and nothing else.
\<close>

type_synonym decoder = "string \<Rightarrow> exn + pyval"









section \<open>The layered strategy of the Intent Extractor, as the specification words it\<close>






section \<open>Column Catalog and Dashboard\<close>

text \<open>
  A column descriptor and a dashboard component have the fields of the data model; both
  come from the ingestion and persistence collaborators. The field \<open>dataset_data\<close> of a
  dashboard state is the entry \<^verbatim>\<open>"_dataset_data"\<close> of the mapping, \<open>None\<close> when the
  mapping has no such key.
\<close>

record column =
  col_name :: string
  col_type :: string
  sample_values :: "string list"

record component =
  comp_id :: string
  comp_type :: string
  comp_title :: string
  comp_x_axis :: "string option"
  comp_y_axis :: "string option"

record dashboard =
  components :: "component list"
  layout :: pyval
  dataset_data :: "pydict list option"

section \<open>Rule-Based Intent Matcher (\<^verbatim>\<open>IntentParser._rule_based_parse\<close>)\<close>

definition visualization_keywords :: "string list" where
  "visualization_keywords =
    [''chart'', ''graph'', ''visualization'', ''visualize'', ''plot'', ''show'', ''display'',
     ''create'', ''add'', ''make'', ''generate'']"

definition chart_type_keywords :: "(string \<times> string) list" where
  "chart_type_keywords =
    [(''bar'', ''bar_chart''), (''line'', ''line_chart''), (''pie'', ''pie_chart''),
     (''kpi'', ''kpi''), (''metric'', ''kpi''), (''total'', ''kpi''), (''table'', ''table'')]"

text \<open>The first keyword of the table that occurs in the command decides the chart type.\<close>

fun pick_chart_type :: "string \<Rightarrow> (string \<times> string) list \<Rightarrow> string" where
  "pick_chart_type command_lower [] = ''bar_chart''"
| "pick_chart_type command_lower ((keyword, ctype) # rest) =
     (if contains command_lower keyword then ctype else pick_chart_type command_lower rest)"

text \<open>
  \<^verbatim>\<open>re.search(r'(\w+)\s+by\s+(\w+)', s)\<close>: the leftmost position at which a run of
  word characters, white space, \<^verbatim>\<open>by\<close>, white space and a run of word characters
  follow one another. Each run is the longest one: the character behind a run cannot start
  what the pattern wants next, so a shorter run never helps. The result is the two groups.
\<close>

definition match_by :: "string \<Rightarrow> (string \<times> string) option" where
  "match_by s =
    (let metric = takeWhile is_word s;
         r1 = dropWhile is_word s;
         r2 = dropWhile isspace r1;
         r3 = drop 2 r2;
         r4 = dropWhile isspace r3;
         category = takeWhile is_word r4
     in if metric \<noteq> [] \<and> length r2 < length r1 \<and> starts_with ''by'' r2
           \<and> length r4 < length r3 \<and> category \<noteq> []
        then Some (metric, category) else None)"

fun search_by :: "string \<Rightarrow> (string \<times> string) option" where
  "search_by [] = None"
| "search_by (c # cs) =
     (case match_by (c # cs) of Some groups \<Rightarrow> Some groups | None \<Rightarrow> search_by cs)"

text \<open>\<^verbatim>\<open>not x_axis\<close> for an axis that is \<^verbatim>\<open>None\<close> or a column name.\<close>

definition not_set :: "string option \<Rightarrow> bool" where
  "not_set axis = (axis = None \<or> axis = Some [])"

definition is_numeric :: "column \<Rightarrow> bool" where
  "is_numeric col = (col_type col = ''numeric'')"

definition is_string_or_date :: "column \<Rightarrow> bool" where
  "is_string_or_date col = (col_type col = ''string'' \<or> col_type col = ''date'')"

text \<open>
  The axes are the pair \<open>(x_axis, y_axis)\<close>. Pattern 1 runs over all columns without a
  \<^verbatim>\<open>break\<close>, so the last column that fits wins.
\<close>

definition by_step ::
  "string \<Rightarrow> string \<Rightarrow> string option \<times> string option \<Rightarrow> column \<Rightarrow> string option \<times> string option"
where
  "by_step metric category axes col =
    (let col_name_lower = lower (col_name col);
         y_axis = (if (contains col_name_lower metric \<or> contains metric col_name_lower)
                      \<and> is_numeric col
                   then Some (col_name col) else snd axes);
         x_axis = (if (contains col_name_lower category \<or> contains category col_name_lower)
                      \<and> is_string_or_date col
                   then Some (col_name col) else fst axes)
     in (x_axis, y_axis))"

definition name_step ::
  "string \<Rightarrow> string option \<times> string option \<Rightarrow> column \<Rightarrow> string option \<times> string option"
where
  "name_step command_lower axes col =
    (let col_name_l = lower (col_name col);
         col_name_clean = replace_char CHR ''-'' CHR '' '' (replace_char CHR ''_'' CHR '' '' col_name_l)
     in if contains command_lower col_name_l \<or> contains command_lower col_name_clean
        then (if is_numeric col \<and> not_set (snd axes) then (fst axes, Some (col_name col))
              else if is_string_or_date col \<and> not_set (fst axes)
              then (Some (col_name col), snd axes)
              else axes)
        else axes)"

definition metric_keywords :: "string list" where
  "metric_keywords =
    [''revenue'', ''sales'', ''quantity'', ''amount'', ''price'', ''cost'', ''profit'',
     ''total'', ''sum'', ''count'']"

definition category_keywords :: "string list" where
  "category_keywords =
    [''category'', ''region'', ''product'', ''date'', ''time'', ''month'', ''year'', ''day'']"

text \<open>
  Patterns 3 and 4: for a keyword of the command, the first column of the wanted type
  whose name holds the keyword, as long as the axis is not set.
\<close>

definition keyword_step ::
  "string \<Rightarrow> (column \<Rightarrow> bool) \<Rightarrow> column list \<Rightarrow> string option \<Rightarrow> string \<Rightarrow> string option"
where
  "keyword_step command_lower wanted cols axis keyword =
    (if contains command_lower keyword \<and> not_set axis
     then (case List.find (\<lambda>col. contains (lower (col_name col)) keyword \<and> wanted col) cols of
             Some col \<Rightarrow> Some (col_name col)
           | None \<Rightarrow> axis)
     else axis)"

text \<open>The axes as the patterns 1 to 4 bind them, before the defaults.\<close>

definition bind_axes :: "string \<Rightarrow> column list \<Rightarrow> string option \<times> string option" where
  "bind_axes command_lower cols =
    (let axes1 = (case search_by command_lower of
                    None \<Rightarrow> (None, None)
                  | Some (metric, category) \<Rightarrow> foldl (by_step metric category) (None, None) cols);
         axes2 = (if not_set (fst axes1) \<or> not_set (snd axes1)
                  then foldl (name_step command_lower) axes1 cols else axes1);
         y_axis = foldl (keyword_step command_lower is_numeric cols) (snd axes2) metric_keywords;
         x_axis = foldl (keyword_step command_lower is_string_or_date cols) (fst axes2)
                    category_keywords
     in (x_axis, y_axis))"

text \<open>\<^verbatim>\<open>[c.get('name') for c in available_columns if c.get('type') == t]\<close>\<close>

definition names_of_type :: "string \<Rightarrow> column list \<Rightarrow> string list" where
  "names_of_type t cols = map col_name (filter (\<lambda>c. col_type c = t) cols)"

definition default_axes ::
  "column list \<Rightarrow> string option \<times> string option \<Rightarrow> string option \<times> string option"
where
  "default_axes cols axes =
    (let numeric_cols = names_of_type ''numeric'' cols;
         string_cols = names_of_type ''string'' cols;
         date_cols = names_of_type ''date'' cols;
         x_axis = (if not_set (fst axes)
                   then (if date_cols \<noteq> [] then Some (hd date_cols)
                         else if string_cols \<noteq> [] then Some (hd string_cols)
                         else fst axes)
                   else fst axes);
         y_axis = (if not_set (snd axes) \<and> numeric_cols \<noteq> [] then Some (hd numeric_cols)
                   else snd axes)
     in (x_axis, y_axis))"

definition chart_params :: "string \<Rightarrow> string option \<times> string option \<Rightarrow> pydict" where
  "chart_params chart_type axes =
    (let params0 = [(''chart_type'', PStr chart_type)];
         params1 = (if \<not> not_set (fst axes) then dict_set ''x_axis'' (PStr (the (fst axes))) params0
                    else params0)
     in if \<not> not_set (snd axes) then dict_set ''y_axis'' (PStr (the (snd axes))) params1
        else params1)"

definition plain_intent :: "string \<Rightarrow> string \<Rightarrow> pydict" where
  "plain_intent action_type explanation =
    [(''action_type'', PStr action_type),
     (''target_component'', PNone),
     (''parameters'', PDict []),
     (''explanation'', PStr explanation)]"

definition rule_based_parse :: "string \<Rightarrow> dashboard \<Rightarrow> column list \<Rightarrow> pydict" where
  "rule_based_parse command dashboard_state available_columns =
    (let command_lower = lower command in
     if contains_any command_lower visualization_keywords
     then (let chart_type = pick_chart_type command_lower chart_type_keywords;
               axes = default_axes available_columns (bind_axes command_lower available_columns)
           in [(''action_type'', PStr ''add_chart''),
               (''target_component'', PNone),
               (''parameters'', PDict (chart_params chart_type axes)),
               (''explanation'', PStr (''Adding '' @ chart_type @ '' to dashboard''))])
     else if contains_any command_lower [''remove'', ''delete'', ''drop'']
     then plain_intent ''remove_chart'' ''Removing component from dashboard''
     else if contains command_lower ''filter'' \<or> contains command_lower ''show only''
             \<or> contains command_lower ''top''
     then plain_intent ''filter_data'' ''Applying filter to data''
     else if contains_any command_lower [''change'', ''modify'', ''update'', ''switch'']
     then plain_intent ''modify_chart'' ''Modifying chart as requested''
     else if contains command_lower ''rename''
     then plain_intent ''rename_component'' ''Renaming component''
     else plain_intent ''unknown''
            ''I didn't understand that command. Please try rephrasing or be more specific.'')"


text \<open>The parameters of an intent, and sample inputs for running the matcher.\<close>

definition intent_params :: "pydict \<Rightarrow> pydict" where
  "intent_params intent = (case dict_get intent ''parameters'' of PDict p \<Rightarrow> p | _ \<Rightarrow> [])"

definition empty_dashboard :: dashboard where
  "empty_dashboard = \<lparr>components = [], layout = PNone, dataset_data = None\<rparr>"

definition sales_catalog :: "column list" where
  "sales_catalog =
    [\<lparr>col_name = ''revenue'', col_type = ''numeric'', sample_values = []\<rparr>,
     \<lparr>col_name = ''region'', col_type = ''string'', sample_values = []\<rparr>]"

definition unnamed_catalog :: "column list" where
  "unnamed_catalog =
    [\<lparr>col_name = '''', col_type = ''string'', sample_values = []\<rparr>,
     \<lparr>col_name = ''revenue'', col_type = ''numeric'', sample_values = []\<rparr>]"

section \<open>Dynamic operations on Python values\<close>

text \<open>
  An exception ends the function that raises it, unless a \<^verbatim>\<open>try\<close> catches it:
  \<open>bind_exn m f\<close> runs \<open>f\<close> on the value of \<open>m\<close> and passes an exception of \<open>m\<close> on.
\<close>

definition bind_exn :: "exn + 'a \<Rightarrow> ('a \<Rightarrow> exn + 'b) \<Rightarrow> exn + 'b" where
  "bind_exn m f = (case m of Inl e \<Rightarrow> Inl e | Inr x \<Rightarrow> f x)"

text \<open>\<^verbatim>\<open>v.get(k, default)\<close>: only a mapping has the method.\<close>

fun py_get :: "pyval \<Rightarrow> string \<Rightarrow> pyval \<Rightarrow> exn + pyval" where
  "py_get (PDict d) k dflt = Inr (dict_get_default d k dflt)"
| "py_get _ k dflt = Inl (Exn AttributeError ''object has no attribute get'')"

text \<open>
  \<^verbatim>\<open>k in v\<close> for a string \<open>k\<close>: a key of a mapping, a substring of a string, an element
  of a list; the other values are not iterable.
\<close>

fun py_contains :: "pyval \<Rightarrow> string \<Rightarrow> exn + bool" where
  "py_contains (PDict d) k = Inr (dict_has d k)"
| "py_contains (PStr s) k = Inr (contains s k)"
| "py_contains (PList xs) k = Inr (PStr k \<in> set xs)"
| "py_contains _ k = Inl (Exn TypeError ''argument is not iterable'')"

text \<open>\<^verbatim>\<open>v[k]\<close> for a string \<open>k\<close>.\<close>

fun py_index :: "pyval \<Rightarrow> string \<Rightarrow> exn + pyval" where
  "py_index (PDict d) k =
     (case map_of d k of Some v \<Rightarrow> Inr v | None \<Rightarrow> Inl (Exn KeyError k))"
| "py_index _ k = Inl (Exn TypeError ''indices must be integers or object is not subscriptable'')"

text \<open>\<^verbatim>\<open>v.replace('_', ' ').title()\<close> and \<^verbatim>\<open>v.lower()\<close>: only a string has the methods.\<close>

fun py_title_words :: "pyval \<Rightarrow> exn + string" where
  "py_title_words (PStr s) = Inr (title (replace_char CHR ''_'' CHR '' '' s))"
| "py_title_words _ = Inl (Exn AttributeError ''object has no attribute replace'')"

fun py_lower :: "pyval \<Rightarrow> exn + string" where
  "py_lower (PStr s) = Inr (lower s)"
| "py_lower _ = Inl (Exn AttributeError ''object has no attribute lower'')"

text \<open>A dictionary key is hashed: lists and mappings are not hashable.\<close>

fun hashable :: "pyval \<Rightarrow> bool" where
  "hashable (PList xs) = False"
| "hashable (PDict d) = False"
| "hashable _ = True"

text \<open>
  \<^verbatim>\<open>str(v)\<close>, as an f-string inserts a value: a string is itself; the text of any other
  value is left to the parameter \<open>repr\<close>.
\<close>

fun py_str :: "(pyval \<Rightarrow> string) \<Rightarrow> pyval \<Rightarrow> string" where
  "py_str repr (PStr s) = s"
| "py_str repr v = repr v"

text \<open>\<^verbatim>\<open>a or b\<close>\<close>

definition py_or :: "pyval \<Rightarrow> pyval \<Rightarrow> pyval" where
  "py_or a b = (if truthy a then a else b)"

text \<open>The decimal text of a natural number, and \<^verbatim>\<open>int(s)\<close> on a string of digits.\<close>

fun digits_of :: "nat \<Rightarrow> nat \<Rightarrow> string" where
  "digits_of 0 n = []"
| "digits_of (Suc fuel) n =
     (if n < 10 then [char_of (48 + n)]
      else digits_of fuel (n div 10) @ [char_of (48 + n mod 10)])"

definition show_nat :: "nat \<Rightarrow> string" where
  "show_nat n = digits_of (Suc n) n"

definition int_of_digits :: "string \<Rightarrow> int" where
  "int_of_digits s = foldl (\<lambda>acc c. 10 * acc + (int (of_char c) - 48)) 0 s"

section \<open>The environment of the Action Compiler\<close>

text \<open>
  What the compiler takes from outside the repository is a parameter:
  \<^item> \<open>new_id k\<close> is the result of the \<open>k\<close>-th call of \<^verbatim>\<open>uuid.uuid4()\<close> in a compilation;
  \<^item> \<open>py_repr\<close> is the text Python gives a value that is not a string;
  \<^item> \<open>gemini_client\<close> is the outcome of constructing \<^verbatim>\<open>GeminiClient()\<close>, which raises
    when no API key is configured;
  \<^item> \<open>chart_narration\<close> is the outcome of \<^verbatim>\<open>llm.generate\<close> on the chart prompt;
  \<^item> \<open>analyse\<close> is the pandas computation of \<^verbatim>\<open>analysis_results\<close> and of the data
    summary from the question, the rows, the catalog and the components;
  \<^item> \<open>narrate\<close> is the assembly of the prompt and \<^verbatim>\<open>llm.generate\<close> on it;
  \<^item> \<open>format_2f\<close>, \<open>format_thousands\<close> and \<open>json_dumps\<close> are the format specifications
    \<^verbatim>\<open>{v:,.2f}\<close> and \<^verbatim>\<open>{v:,}\<close> and \<^verbatim>\<open>json.dumps\<close>;
  \<^item> \<open>llm_response\<close> is the outcome of \<^verbatim>\<open>self.llm.generate\<close> on the prompt built from
    the command, the dashboard and the catalog;
  \<^item> \<open>json_loads\<close> is \<^verbatim>\<open>json.loads\<close>.
\<close>

record env =
  new_id :: "nat \<Rightarrow> string"
  py_repr :: "pyval \<Rightarrow> string"
  gemini_client :: "exn + unit"
  chart_narration :: "pyval \<Rightarrow> pyval \<Rightarrow> dashboard \<Rightarrow> column list \<Rightarrow> exn + string"
  analyse :: "pyval \<Rightarrow> pydict list \<Rightarrow> column list \<Rightarrow> component list \<Rightarrow> exn + pydict"
  narrate :: "pyval \<Rightarrow> pydict \<Rightarrow> pydict list \<Rightarrow> column list \<Rightarrow> component list \<Rightarrow> exn + string"
  format_2f :: "pyval \<Rightarrow> exn + string"
  format_thousands :: "pyval \<Rightarrow> exn + string"
  json_dumps :: "pydict \<Rightarrow> exn + string"
  llm_response :: "string \<Rightarrow> dashboard \<Rightarrow> column list \<Rightarrow> exn + string"
  json_loads :: decoder

section \<open>Action Compiler: the handlers (\<^verbatim>\<open>ActionGenerator\<close>)\<close>

record column_info =
  ci_numeric :: "string list"
  ci_string :: "string list"
  ci_date :: "string list"
  ci_boolean :: "string list"

definition categorize_columns :: "column list \<Rightarrow> column_info" where
  "categorize_columns columns =
    \<lparr>ci_numeric = names_of_type ''numeric'' columns,
     ci_string = names_of_type ''string'' columns,
     ci_date = names_of_type ''date'' columns,
     ci_boolean = names_of_type ''boolean'' columns\<rparr>"

definition failure :: "string \<Rightarrow> string \<Rightarrow> pydict" where
  "failure err explanation =
    [(''success'', PBool False), (''error'', PStr err), (''explanation'', PStr explanation)]"

text \<open>\<^verbatim>\<open>if not axis and names: axis = names[0]\<close>\<close>

definition default_axis :: "pyval \<Rightarrow> string list \<Rightarrow> pyval" where
  "default_axis axis names = (if \<not> truthy axis \<and> names \<noteq> [] then PStr (hd names) else axis)"

definition position :: "nat \<Rightarrow> nat \<Rightarrow> nat \<Rightarrow> nat \<Rightarrow> pyval" where
  "position row col width height =
    PDict [(''row'', PInt (int row)), (''col'', PInt (int col)),
           (''width'', PInt (int width)), (''height'', PInt (int height))]"

definition generate_add_chart ::
  "env \<Rightarrow> dashboard \<Rightarrow> pyval \<Rightarrow> column_info \<Rightarrow> pydict \<Rightarrow> exn + pydict"
where
  "generate_add_chart env dashboard parameters column_info intent =
    bind_exn (py_get parameters ''chart_type'' (PStr ''bar_chart'')) (\<lambda>chart_type.
    bind_exn (py_get parameters ''x_axis'' PNone) (\<lambda>x0.
    bind_exn (py_get parameters ''y_axis'' PNone) (\<lambda>y0.
    let x1 = default_axis x0 (ci_string column_info);
        y1 = default_axis y0 (ci_numeric column_info);
        missing = (\<not> truthy x1 \<or> \<not> truthy y1);
        paired = (ci_string column_info \<noteq> [] \<and> ci_numeric column_info \<noteq> [])
    in
    if in_strs chart_type [''bar_chart'', ''line_chart''] \<and> missing
    then Inr (failure ''Need both X-axis (categorical) and Y-axis (numeric) columns''
                ''Cannot create chart: missing required columns'')
    else if chart_type = PStr ''pie_chart'' \<and> missing \<and> \<not> paired
    then Inr (failure ''Pie chart requires categorical and numeric columns''
                ''Cannot create pie chart: insufficient columns'')
    else
    let x_axis = (if chart_type = PStr ''pie_chart'' \<and> missing
                  then PStr (hd (ci_string column_info)) else x1);
        y_axis = (if chart_type = PStr ''pie_chart'' \<and> missing
                  then PStr (hd (ci_numeric column_info)) else y1);
        row = length (components dashboard)
    in
    bind_exn (py_get parameters ''title'' PNone) (\<lambda>title0.
    bind_exn
      (if truthy title0 then Inr title0
       else if truthy x_axis \<and> truthy y_axis
       then bind_exn (py_title_words y_axis) (\<lambda>y_words.
            bind_exn (py_title_words x_axis) (\<lambda>x_words.
            Inr (PStr (y_words @ '' by '' @ x_words))))
       else bind_exn (py_title_words chart_type) (\<lambda>type_words.
            Inr (PStr (''New '' @ type_words))))
      (\<lambda>title_value.
    bind_exn (py_get parameters ''aggregation'' (PStr ''sum'')) (\<lambda>aggregation.
    Inr [(''success'', PBool True),
         (''action'', PStr ''add_component''),
         (''component'',
          PDict [(''id'', PStr (new_id env 0)),
                 (''type'', chart_type),
                 (''title'', title_value),
                 (''config'',
                  PDict [(''x_axis'', x_axis), (''y_axis'', y_axis),
                         (''aggregation'', aggregation), (''data'', PList [])]),
                 (''position'', position row 0 2 2)]),
         (''explanation'',
          dict_get_default intent ''explanation''
            (PStr (''Added '' @ py_str (py_repr env) chart_type @ '' to dashboard'')))]))))))"

text \<open>Target resolution: the explicit target, else a component of the dashboard.\<close>

definition chart_types :: "string list" where
  "chart_types = [''bar_chart'', ''line_chart'', ''pie_chart'']"

definition generate_modify_chart :: "dashboard \<Rightarrow> pyval \<Rightarrow> pydict \<Rightarrow> exn + pydict" where
  "generate_modify_chart dashboard parameters intent =
    (let target0 = dict_get intent ''target_component'';
         comps = components dashboard;
         chart_components = filter (\<lambda>c. comp_type c \<in> set chart_types) comps
     in
     if \<not> truthy target0 \<and> comps = []
     then Inr (failure ''No component to modify'' ''No components found in dashboard'')
     else
     let target_id = (if truthy target0 then target0
                      else if chart_components \<noteq> [] then PStr (comp_id (hd chart_components))
                      else PStr (comp_id (hd comps)))
     in
     bind_exn (py_contains parameters ''chart_type'') (\<lambda>has_chart_type.
     bind_exn (if has_chart_type then Inr True else py_contains parameters ''type'') (\<lambda>has_type.
     bind_exn
       (if has_type
        then bind_exn (py_get parameters ''chart_type'' PNone) (\<lambda>ct.
             bind_exn (if truthy ct then Inr ct else py_get parameters ''type'' PNone) (\<lambda>new_type.
             Inr (if in_strs new_type [''bar_chart'', ''line_chart'', ''pie_chart'', ''scatter_chart'']
                  then [(''type'', new_type)] else [])))
        else Inr [])
       (\<lambda>updates1.
     bind_exn (py_contains parameters ''title'') (\<lambda>has_title.
     bind_exn
       (if has_title
        then bind_exn (py_index parameters ''title'') (\<lambda>t. Inr (dict_set ''title'' t updates1))
        else Inr updates1)
       (\<lambda>updates2.
     bind_exn (py_contains parameters ''x_axis'') (\<lambda>has_x.
     bind_exn (if has_x then Inr True else py_contains parameters ''y_axis'') (\<lambda>has_axis.
     bind_exn
       (if has_axis
        then bind_exn (py_contains parameters ''x_axis'') (\<lambda>hx.
             bind_exn (if hx then bind_exn (py_index parameters ''x_axis'')
                                    (\<lambda>x. Inr [(''x_axis'', x)])
                       else Inr []) (\<lambda>config1.
             bind_exn (py_contains parameters ''y_axis'') (\<lambda>hy.
             bind_exn (if hy then bind_exn (py_index parameters ''y_axis'')
                                    (\<lambda>y. Inr (dict_set ''y_axis'' y config1))
                       else Inr config1) (\<lambda>config2.
             Inr (dict_set ''config'' (PDict config2) updates2)))))
        else Inr updates2)
       (\<lambda>updates.
     if updates = []
     then Inr (failure ''No valid updates specified''
                 ''Please specify what to modify (type, title, axes, etc.)'')
     else Inr [(''success'', PBool True),
               (''action'', PStr ''update_component''),
               (''component_id'', target_id),
               (''updates'', PDict updates),
               (''explanation'',
                dict_get_default intent ''explanation'' (PStr ''Modified chart''))])))))))))"

definition generate_remove_chart :: "dashboard \<Rightarrow> pyval \<Rightarrow> pydict \<Rightarrow> exn + pydict" where
  "generate_remove_chart dashboard parameters intent =
    (let target0 = dict_get intent ''target_component'';
         comps = components dashboard
     in
     if \<not> truthy target0 \<and> comps = []
     then Inr (failure ''No component to remove'' ''No components found in dashboard'')
     else
     let target_id = (if truthy target0 then target0 else PStr (comp_id (last comps)))
     in Inr [(''success'', PBool True),
             (''action'', PStr ''remove_component''),
             (''component_id'', target_id),
             (''explanation'',
              dict_get_default intent ''explanation'' (PStr ''Removed component''))])"


section \<open>Properties of the Intent Validator\<close>

lemma map_of_dict_set: "map_of (dict_set k v d) = (map_of d)(k \<mapsto> v)"
  by (simp add: dict_set_def update_conv')

lemma map_of_fill_default:
  "map_of (fill_default k v d) k' =
     (if k' = k \<and> map_of d k = None then Some v else map_of d k')"
  by (simp add: fill_default_def dict_has_def map_of_dict_set)

lemma valid_actions_size: "length valid_actions = 11 \<and> distinct valid_actions"
  by (simp add: valid_actions_def)

lemma unknown_is_valid: "''unknown'' \<in> set valid_actions"
  by (simp add: valid_actions_def)

text \<open>
  Claim C2. For every input mapping the validator returns a mapping that holds the four
  required keys. A key that was absent holds its default: \<open>action_type\<close> is
  \<open>unknown\<close>, \<open>target_component\<close> is \<open>None\<close>, \<open>parameters\<close> is the empty mapping and
  \<open>explanation\<close> is a generic sentence. The returned \<open>action_type\<close> is one of the 11
  recognised values: an input value outside them is replaced by \<open>unknown\<close>, and then the
  explanation is overwritten with the list of the valid values.
\<close>

theorem validate_action_normalises:
  "dict_has (validate_action a) ''action_type''
   \<and> dict_has (validate_action a) ''target_component''
   \<and> dict_has (validate_action a) ''parameters''
   \<and> dict_has (validate_action a) ''explanation''
   \<and> length valid_actions = 11
   \<and> in_strs (dict_get (validate_action a) ''action_type'') valid_actions
   \<and> dict_get (validate_action a) ''action_type'' =
       (if in_strs (dict_get_default a ''action_type'' (PStr ''unknown'')) valid_actions
        then dict_get_default a ''action_type'' (PStr ''unknown'')
        else PStr ''unknown'')
   \<and> dict_get (validate_action a) ''target_component'' =
       dict_get_default a ''target_component'' PNone
   \<and> dict_get (validate_action a) ''parameters'' = dict_get_default a ''parameters'' (PDict [])
   \<and> dict_get (validate_action a) ''explanation'' =
       (if in_strs (dict_get_default a ''action_type'' (PStr ''unknown'')) valid_actions
        then dict_get_default a ''explanation'' (PStr ''Processing your request.'')
        else PStr (''Unknown action type. Available: '' @ join '', '' valid_actions))"
  by (auto simp: validate_action_def Let_def dict_has_def dict_get_def dict_get_default_def
        map_of_dict_set map_of_fill_default unknown_is_valid valid_actions_size
        split: option.splits)

theorem validate_action_normalises_witness:
  "dict_get (validate_action [(''action_type'', PStr ''dance'')]) ''action_type'' = PStr ''unknown''
   \<and> dict_get (validate_action [(''action_type'', PStr ''dance'')]) ''target_component'' = PNone
   \<and> dict_get (validate_action [(''action_type'', PStr ''dance'')]) ''parameters'' = PDict []
   \<and> dict_get (validate_action [(''action_type'', PStr ''dance'')]) ''explanation'' =
       PStr (''Unknown action type. Available: '' @ join '', '' valid_actions)"
  using validate_action_normalises [of "[(''action_type'', PStr ''dance'')]"]
  by (simp add: dict_get_default_def valid_actions_def)

section \<open>Properties of the Intent Extractor\<close>


























section \<open>Properties of the Rule-Based Intent Matcher\<close>









lemma hd_filtered_name:
  assumes "names_of_type t cols \<noteq> []" and "\<forall>c \<in> set cols. col_name c \<noteq> []"
  shows "hd (names_of_type t cols) \<noteq> []"
proof -
  have "hd (names_of_type t cols) \<in> set (names_of_type t cols)"
    using assms(1) by (rule hd_in_set)
  then show ?thesis using assms(2) by (auto simp: names_of_type_def)
qed

lemma filtered_nonempty:
  assumes "c \<in> set cols" and "col_type c = t"
  shows "names_of_type t cols \<noteq> []"
  using assms by (auto simp: names_of_type_def filter_empty_conv)

lemma default_x_set:
  assumes "\<exists>c \<in> set cols. is_string_or_date c" and "\<forall>c \<in> set cols. col_name c \<noteq> []"
  shows "\<not> not_set (fst (default_axes cols axes))"
proof (cases "not_set (fst axes)")
  case False
  then show ?thesis by (simp add: default_axes_def Let_def)
next
  case True
  from assms(1) obtain c where c: "c \<in> set cols" "is_string_or_date c" by blast
  show ?thesis
  proof (cases "names_of_type ''date'' cols = []")
    case dates: False
    then show ?thesis using True hd_filtered_name[OF dates assms(2)]
      by (simp add: default_axes_def Let_def not_set_def)
  next
    case nodates: True
    then have "col_type c \<noteq> ''date''" using filtered_nonempty[OF c(1)] by blast
    then have "col_type c = ''string''" using c(2) by (simp add: is_string_or_date_def)
    then have strings: "names_of_type ''string'' cols \<noteq> []"
      by (rule filtered_nonempty[OF c(1)])
    show ?thesis using True nodates strings hd_filtered_name[OF strings assms(2)]
      by (simp add: default_axes_def Let_def not_set_def)
  qed
qed

lemma default_y_set:
  assumes "\<exists>c \<in> set cols. is_numeric c" and "\<forall>c \<in> set cols. col_name c \<noteq> []"
  shows "\<not> not_set (snd (default_axes cols axes))"
proof (cases "not_set (snd axes)")
  case False
  then show ?thesis by (simp add: default_axes_def Let_def)
next
  case True
  from assms(1) obtain c where c: "c \<in> set cols" "col_type c = ''numeric''"
    by (auto simp: is_numeric_def)
  have nums: "names_of_type ''numeric'' cols \<noteq> []"
    by (rule filtered_nonempty[OF c])
  show ?thesis using True nums hd_filtered_name[OF nums assms(2)]
    by (simp add: default_axes_def Let_def not_set_def)
qed

lemma chart_params_x:
  "map_of (chart_params ct axes) ''x_axis'' =
     (if not_set (fst axes) then None else Some (PStr (the (fst axes))))"
  by (simp add: chart_params_def Let_def map_of_dict_set)

lemma chart_params_y:
  "map_of (chart_params ct axes) ''y_axis'' =
     (if not_set (snd axes) then None else Some (PStr (the (snd axes))))"
  by (simp add: chart_params_def Let_def map_of_dict_set)

lemma add_chart_params:
  assumes "contains_any (lower command) visualization_keywords"
  shows "intent_params (rule_based_parse command d cols) =
     chart_params (pick_chart_type (lower command) chart_type_keywords)
       (default_axes cols (bind_axes (lower command) cols))"
  using assms by (simp add: rule_based_parse_def Let_def intent_params_def dict_get_def)

lemma set_axis_value: "\<not> not_set a \<Longrightarrow> \<exists>x. a = Some x \<and> x \<noteq> []"
  by (cases a) (auto simp: not_set_def)

lemma default_x_value:
  assumes "\<exists>c \<in> set cols. is_string_or_date c" and "not_set (fst axes)"
  shows "fst (default_axes cols axes) =
     Some (hd (names_of_type ''date'' cols @ names_of_type ''string'' cols))"
proof (cases "names_of_type ''date'' cols = []")
  case False
  then show ?thesis using assms(2) by (simp add: default_axes_def Let_def)
next
  case True
  from assms(1) obtain c where c: "c \<in> set cols" "is_string_or_date c" by blast
  have "col_type c \<noteq> ''date''" using True filtered_nonempty[OF c(1)] by blast
  then have "col_type c = ''string''" using c(2) by (simp add: is_string_or_date_def)
  then have "names_of_type ''string'' cols \<noteq> []" by (rule filtered_nonempty[OF c(1)])
  then show ?thesis using True assms(2) by (simp add: default_axes_def Let_def)
qed

lemma default_y_value:
  assumes "\<exists>c \<in> set cols. is_numeric c" and "not_set (snd axes)"
  shows "snd (default_axes cols axes) = Some (hd (names_of_type ''numeric'' cols))"
proof -
  from assms(1) obtain c where c: "c \<in> set cols" "col_type c = ''numeric''"
    by (auto simp: is_numeric_def)
  have "names_of_type ''numeric'' cols \<noteq> []" by (rule filtered_nonempty[OF c])
  then show ?thesis using assms(2) by (simp add: default_axes_def Let_def)
qed

text \<open>
  Claim C5, amended. For every command the matcher classifies as \<open>add_chart\<close>, if the
  catalog holds a numeric column and a string or date column and no column name is empty,
  the parameters of the intent hold a non-empty \<open>x_axis\<close> and a non-empty \<open>y_axis\<close>.
  When the binding rules leave the horizontal axis unset it is the first date column, or
  the first string column if there is no date column; when they leave the vertical axis
  unset it is the first numeric column.
\<close>

theorem add_chart_axes_bound:
  assumes viz: "contains_any (lower command) visualization_keywords"
    and num: "\<exists>c \<in> set cols. is_numeric c"
    and cat: "\<exists>c \<in> set cols. is_string_or_date c"
    and names: "\<forall>c \<in> set cols. col_name c \<noteq> []"
  shows "dict_get (rule_based_parse command d cols) ''action_type'' = PStr ''add_chart''
       \<and> (\<exists>x. map_of (intent_params (rule_based_parse command d cols)) ''x_axis'' = Some (PStr x)
              \<and> x \<noteq> [])
       \<and> (\<exists>y. map_of (intent_params (rule_based_parse command d cols)) ''y_axis'' = Some (PStr y)
              \<and> y \<noteq> [])
       \<and> (not_set (fst (bind_axes (lower command) cols)) \<longrightarrow>
            map_of (intent_params (rule_based_parse command d cols)) ''x_axis'' =
              Some (PStr (hd (names_of_type ''date'' cols @ names_of_type ''string'' cols))))
       \<and> (not_set (snd (bind_axes (lower command) cols)) \<longrightarrow>
            map_of (intent_params (rule_based_parse command d cols)) ''y_axis'' =
              Some (PStr (hd (names_of_type ''numeric'' cols))))"
proof (intro conjI impI)
  let ?bound = "bind_axes (lower command) cols"
  let ?axes = "default_axes cols ?bound"
  have xset: "\<not> not_set (fst ?axes)" by (rule default_x_set[OF cat names])
  have yset: "\<not> not_set (snd ?axes)" by (rule default_y_set[OF num names])
  show "dict_get (rule_based_parse command d cols) ''action_type'' = PStr ''add_chart''"
    using viz by (simp add: rule_based_parse_def Let_def dict_get_def)
  from xset obtain x where "fst ?axes = Some x" "x \<noteq> []"
    using set_axis_value by blast
  then show "\<exists>x. map_of (intent_params (rule_based_parse command d cols)) ''x_axis'' =
      Some (PStr x) \<and> x \<noteq> []"
    using xset by (simp add: add_chart_params[OF viz] chart_params_x)
  from yset obtain y where "snd ?axes = Some y" "y \<noteq> []"
    using set_axis_value by blast
  then show "\<exists>y. map_of (intent_params (rule_based_parse command d cols)) ''y_axis'' =
      Some (PStr y) \<and> y \<noteq> []"
    using yset by (simp add: add_chart_params[OF viz] chart_params_y)
  show "map_of (intent_params (rule_based_parse command d cols)) ''x_axis'' =
      Some (PStr (hd (names_of_type ''date'' cols @ names_of_type ''string'' cols)))"
    if "not_set (fst ?bound)"
    using xset default_x_value[OF cat that]
    by (simp add: add_chart_params[OF viz] chart_params_x)
  show "map_of (intent_params (rule_based_parse command d cols)) ''y_axis'' =
      Some (PStr (hd (names_of_type ''numeric'' cols)))"
    if "not_set (snd ?bound)"
    using yset default_y_value[OF num that]
    by (simp add: add_chart_params[OF viz] chart_params_y)
qed

lemma sales_catalog_typed:
  "(\<exists>c \<in> set sales_catalog. is_numeric c) \<and> (\<exists>c \<in> set sales_catalog. is_string_or_date c)
   \<and> (\<forall>c \<in> set sales_catalog. col_name c \<noteq> [])"
  by (simp add: sales_catalog_def is_numeric_def is_string_or_date_def)

lemma display_is_visualization:
  "contains_any (lower ''Display it'') visualization_keywords"
  by code_simp

lemma display_binds_nothing:
  "not_set (fst (bind_axes (lower ''Display it'') sales_catalog))
   \<and> not_set (snd (bind_axes (lower ''Display it'') sales_catalog))"
  by code_simp

lemma sales_catalog_firsts:
  "hd (names_of_type ''date'' sales_catalog @ names_of_type ''string'' sales_catalog) = ''region''
   \<and> hd (names_of_type ''numeric'' sales_catalog) = ''revenue''"
  by code_simp

theorem add_chart_axes_bound_witness:
  "contains_any (lower ''Display it'') visualization_keywords
   \<and> list_ex is_numeric sales_catalog
   \<and> list_ex is_string_or_date sales_catalog
   \<and> list_all (\<lambda>c. col_name c \<noteq> []) sales_catalog
   \<and> map_of (intent_params (rule_based_parse ''Display it'' empty_dashboard sales_catalog))
        ''x_axis'' = Some (PStr ''region'')
   \<and> map_of (intent_params (rule_based_parse ''Display it'' empty_dashboard sales_catalog))
        ''y_axis'' = Some (PStr ''revenue'')"
  using add_chart_axes_bound[of "''Display it''" sales_catalog empty_dashboard]
    sales_catalog_typed display_is_visualization display_binds_nothing sales_catalog_firsts
  by (simp add: list_ex_iff list_all_iff)

text \<open>
  The claim as stated fails on a catalog whose string column has the empty name (the
  name a front-end column without a name is given): the command is classified
  \<open>add_chart\<close>, the catalog holds a numeric and a string column, and the intent has no
  \<open>x_axis\<close>.
\<close>

theorem unnamed_column_counterexample:
  "dict_get (rule_based_parse ''show chart'' empty_dashboard unnamed_catalog) ''action_type''
     = PStr ''add_chart''
   \<and> list_ex is_numeric unnamed_catalog
   \<and> list_ex is_string_or_date unnamed_catalog
   \<and> map_of (intent_params (rule_based_parse ''show chart'' empty_dashboard unnamed_catalog))
        ''x_axis'' = None"
  by code_simp


end
